theory Spec2Isabelle
  imports Complex_Main "HOL-Library.Multiset"
begin

section \<open>Data model of \<open>src/jobs/data_processing_job.py\<close>\<close>

text \<open>
  One row of the sample data, with the column names the job gives the DataFrame
  (\<open>rdd.toDF(["id", "name", "age", "salary", "department"])\<close>). Python integers
  are unbounded, so the numeric columns are \<open>int\<close>.
\<close>

record employee =
  id' :: int
  name :: string
  age :: int
  salary :: int
  department :: string

text \<open>
  A row of \<open>df_with_features\<close>: the five columns of the input and the two columns
  added by \<open>withColumn\<close>.
\<close>

record employee_features = employee +
  age_group :: string
  salary_category :: string

text \<open>Exceptions of the Python run time and of the engine that the job can meet.\<close>

datatype error =
    ZeroDivisionError
  | TypeError string
  | ValueError string
  | IndexError string

definition bind_err :: "error + 'a \<Rightarrow> ('a \<Rightarrow> error + 'b) \<Rightarrow> error + 'b" where
  "bind_err r f = (case r of Inl e \<Rightarrow> Inl e | Inr x \<Rightarrow> f x)"

section \<open>Derived labels\<close>

text \<open>
  The key function of the fourth key-value step (source lines 91 to 94):
  \<open>"Young" if row.age < 30 else "Middle" if row.age < 50 else "Senior"\<close>.
\<close>

definition age_band :: "int \<Rightarrow> string" where
  "age_band a = (if a < 30 then ''Young'' else if a < 50 then ''Middle'' else ''Senior'')"

text \<open>
  The column expression \<open>when(c1, v1).when(c2, v2).otherwise(d)\<close> of the engine: the
  value of the first branch whose condition holds, the default when none does.
\<close>

fun case_when :: "(bool \<times> 'a) list \<Rightarrow> 'a \<Rightarrow> 'a" where
  "case_when [] d = d"
| "case_when ((c, v) # bs) d = (if c then v else case_when bs d)"

text \<open>The two computed columns of \<open>apply_dataframe_transformations\<close> (lines 113 to 123).\<close>

definition age_group_col :: "int \<Rightarrow> string" where
  "age_group_col a = case_when [(a < 30, ''Young''), (a < 50, ''Middle'')] ''Senior''"

definition salary_category_col :: "int \<Rightarrow> string" where
  "salary_category_col s = case_when [(s < 50000, ''Low''), (s < 100000, ''Medium'')] ''High''"


section \<open>Python values and arithmetic\<close>

text \<open>
  The values \<open>num_rows\<close> can be bound to. A finite float is carried as the rational
  it denotes; its value is never used, since \<open>range\<close> rejects every float.
\<close>

datatype pyval =
    PyInt int
  | PyBool bool
  | PyFloat rat
  | PyStr string
  | PyNone

text \<open>
  \<open>range(v)\<close> as the list comprehension iterates it: the number of iterations, or the
  TypeError that \<open>range\<close> raises for an argument that is not an integer. A bool is an
  integer in Python, and a negative count gives no iteration.
\<close>

definition py_range :: "pyval \<Rightarrow> error + nat" where
  "py_range v =
     (case v of
        PyInt n \<Rightarrow> Inr (nat n)
      | PyBool b \<Rightarrow> Inr (if b then 1 else 0)
      | PyFloat x \<Rightarrow> Inl (TypeError ''float object cannot be interpreted as an integer'')
      | PyStr s \<Rightarrow> Inl (TypeError ''str object cannot be interpreted as an integer'')
      | PyNone \<Rightarrow> Inl (TypeError ''NoneType object cannot be interpreted as an integer''))"

text \<open>
  True division \<open>a / b\<close> of two Python integers. It raises on a zero divisor; the float
  it returns is represented by the exact quotient, so rounding is left out of the model.
\<close>

definition py_truediv :: "int \<Rightarrow> int \<Rightarrow> error + rat" where
  "py_truediv a b = (if b = 0 then Inl ZeroDivisionError else Inr (of_int a / of_int b))"

section \<open>The random source\<close>

text \<open>
  The state of Python's \<open>random\<close> module: an infinite sequence of raw draws, read from
  the front. \<open>randint(a, b)\<close> returns an integer of the closed range and raises on an
  empty range; \<open>choice(seq)\<close> returns an element of the sequence and raises on an
  empty one.
\<close>

type_synonym rng = "nat \<Rightarrow> nat"

definition next_draw :: "rng \<Rightarrow> nat \<times> rng" where
  "next_draw g = (g 0, \<lambda>i. g (Suc i))"

definition randint :: "rng \<Rightarrow> int \<Rightarrow> int \<Rightarrow> error + (int \<times> rng)" where
  "randint g a b =
     (if b < a then Inl (ValueError ''empty range for randrange()'')
      else Inr (a + int (fst (next_draw g)) mod (b - a + 1), snd (next_draw g)))"

definition choice :: "rng \<Rightarrow> 'a list \<Rightarrow> error + ('a \<times> rng)" where
  "choice g xs =
     (if xs = [] then Inl (IndexError ''Cannot choose from an empty sequence'')
      else Inr (xs ! (fst (next_draw g) mod length xs), snd (next_draw g)))"

section \<open>The engine's collections\<close>

text \<open>
  An RDD is the list of its elements and a pair RDD a list of key-value pairs;
  \<open>rdd.filter\<close>, \<open>rdd.map\<close> and \<open>rdd.count()\<close> are \<open>filter\<close>, \<open>map\<close> and
  \<open>length\<close>. A DataFrame is the list of its rows.
\<close>

definition mapValues :: "('v \<Rightarrow> 'w) \<Rightarrow> ('k \<times> 'v) list \<Rightarrow> ('k \<times> 'w) list" where
  "mapValues f kvs = map (\<lambda>(k, v). (k, f v)) kvs"

text \<open>\<open>mapValues\<close> with a Python function that can raise: the first exception ends the job.\<close>

fun mapValues_try :: "('v \<Rightarrow> error + 'w) \<Rightarrow> ('k \<times> 'v) list \<Rightarrow> error + ('k \<times> 'w) list" where
  "mapValues_try f [] = Inr []"
| "mapValues_try f ((k, v) # kvs) =
     (case f v of
        Inl e \<Rightarrow> Inl e
      | Inr w \<Rightarrow> (case mapValues_try f kvs of
                   Inl e \<Rightarrow> Inl e
                 | Inr rest \<Rightarrow> Inr ((k, w) # rest)))"

text \<open>
  Modelled from the spec: the engine's \<open>reduceByKey(f)\<close> is not part of the repository.
  It folds the values that share a key into one running value with the combiner \<open>f\<close>.
  \<open>merge_value\<close> absorbs one pair into the running results, which hold every key once,
  in the order of first appearance; \<open>reduceByKey\<close> is the single left-to-right fold
  over the whole input.
\<close>

fun merge_value :: "('v \<Rightarrow> 'v \<Rightarrow> 'v) \<Rightarrow> 'k \<Rightarrow> 'v \<Rightarrow> ('k \<times> 'v) list \<Rightarrow> ('k \<times> 'v) list" where
  "merge_value f k v [] = [(k, v)]"
| "merge_value f k v ((k', v') # acc) =
     (if k' = k then (k', f v' v) # acc else (k', v') # merge_value f k v acc)"

definition merge_results :: "('v \<Rightarrow> 'v \<Rightarrow> 'v) \<Rightarrow> ('k \<times> 'v) list \<Rightarrow> ('k \<times> 'v) list \<Rightarrow> ('k \<times> 'v) list" where
  "merge_results f acc kvs = foldl (\<lambda>acc' (k, v). merge_value f k v acc') acc kvs"

definition reduceByKey :: "('v \<Rightarrow> 'v \<Rightarrow> 'v) \<Rightarrow> ('k \<times> 'v) list \<Rightarrow> ('k \<times> 'v) list" where
  "reduceByKey f kvs = merge_results f [] kvs"

text \<open>
  Modelled from the spec: how the engine may schedule one \<open>reduceByKey\<close>. The input is
  split into partitions, each folded on its own, and the partial results are combined
  pairwise in any bracketing and any order.
\<close>

datatype ('k, 'v) reduce_plan =
    Partition "('k \<times> 'v) list"
  | Combine "('k, 'v) reduce_plan" "('k, 'v) reduce_plan"

fun run_plan :: "('v \<Rightarrow> 'v \<Rightarrow> 'v) \<Rightarrow> ('k, 'v) reduce_plan \<Rightarrow> ('k \<times> 'v) list" where
  "run_plan f (Partition kvs) = reduceByKey f kvs"
| "run_plan f (Combine p q) = merge_results f (run_plan f p) (run_plan f q)"

fun plan_items :: "('k, 'v) reduce_plan \<Rightarrow> ('k \<times> 'v) multiset" where
  "plan_items (Partition kvs) = mset kvs"
| "plan_items (Combine p q) = plan_items p + plan_items q"

text \<open>
  Modelled from the spec: the engine's \<open>groupBy(key)\<close> is not part of the repository.
  It yields one group for each distinct key value of the rows, holding the rows with
  that value; \<open>count("*")\<close> is the number of rows of a group and \<open>avg(column)\<close> the sum
  of the column over the group divided by that number (null, here \<open>None\<close>, over no
  rows), represented exactly as for \<open>py_truediv\<close>.
\<close>

definition groupBy :: "('r \<Rightarrow> 'k) \<Rightarrow> 'r list \<Rightarrow> ('k \<times> 'r list) list" where
  "groupBy key rows = map (\<lambda>k. (k, filter (\<lambda>r. key r = k) rows)) (remdups (map key rows))"

definition sql_count :: "'r list \<Rightarrow> int" where
  "sql_count rows = int (length rows)"

definition sql_avg :: "int list \<Rightarrow> rat option" where
  "sql_avg xs = (if xs = [] then None else Some (of_int (sum_list xs) / of_int (int (length xs))))"

text \<open>
  \<open>rdd.toDF(names)\<close> infers the schema from the first row of the RDD, so the engine
  raises \<open>ValueError("RDD is empty")\<close> when there is none. The rows are kept as they are.
\<close>

definition toDF :: "employee list \<Rightarrow> error + employee list" where
  "toDF rdd = (case rdd of [] \<Rightarrow> Inl (ValueError ''RDD is empty'') | r # rs \<Rightarrow> Inr rdd)"

section \<open>The record generator: \<open>create_sample_data\<close>\<close>

definition departments :: "string list" where
  "departments = [''Engineering'', ''Sales'', ''Marketing'', ''HR'', ''Finance'']"

definition names :: "string list" where
  "names = [''Alice'', ''Bob'', ''Charlie'', ''Diana'', ''Eve'', ''Frank'', ''Grace'', ''Henry'']"

text \<open>The five draws of \<open>generate_record\<close>, left to right as the tuple is built.\<close>

definition generate_record :: "rng \<Rightarrow> error + (employee \<times> rng)" where
  "generate_record g0 =
     bind_err (randint g0 1 10000) (\<lambda>(i, g1).
     bind_err (choice g1 names) (\<lambda>(n, g2).
     bind_err (randint g2 22 65) (\<lambda>(a, g3).
     bind_err (randint g3 30000 150000) (\<lambda>(s, g4).
     bind_err (choice g4 departments) (\<lambda>(d, g5).
       Inr (\<lparr>id' = i, name = n, age = a, salary = s, department = d\<rparr>, g5))))))"

text \<open>The list comprehension \<open>[generate_record() for _ in range(num_rows)]\<close>.\<close>

fun generate_records :: "nat \<Rightarrow> rng \<Rightarrow> error + (employee list \<times> rng)" where
  "generate_records 0 g = Inr ([], g)"
| "generate_records (Suc n) g =
     (case generate_record g of
        Inl e \<Rightarrow> Inl e
      | Inr (r, g') \<Rightarrow> (case generate_records n g' of
                        Inl e \<Rightarrow> Inl e
                      | Inr (rs, g'') \<Rightarrow> Inr (r # rs, g'')))"

definition create_sample_data :: "rng \<Rightarrow> pyval \<Rightarrow> error + (employee list \<times> rng)" where
  "create_sample_data g num_rows =
     bind_err (py_range num_rows) (\<lambda>n.
     bind_err (generate_records n g) (\<lambda>(rdd, g').
     bind_err (toDF rdd) (\<lambda>df. Inr (df, g'))))"

section \<open>The key-value aggregator: \<open>apply_rdd_transformations\<close>\<close>

text \<open>The combiner \<open>lambda x, y: (x[0] + y[0], x[1] + y[1])\<close>.\<close>

definition add_pair :: "int \<times> int \<Rightarrow> int \<times> int \<Rightarrow> int \<times> int" where
  "add_pair x y = (fst x + fst y, snd x + snd y)"

text \<open>
  What the function logs, with the computed values kept as values, and what it returns.
\<close>

datatype log_event =
    Info string
  | HighSalaryCount nat
  | DeptAvgLine string rat
  | AgeGroupLine string int rat

record rdd_result =
  logged :: "log_event list"
  dept_avg_salary :: "(string \<times> rat) list"
  age_group_stats :: "(string \<times> rat \<times> int) list"

definition apply_rdd_transformations :: "employee list \<Rightarrow> error + rdd_result" where
  "apply_rdd_transformations df =
     (let log0 = [Info ''Converting DataFrame to RDD for transformations...''];
          high_salary_rdd = filter (\<lambda>row. salary row > 50000) df;
          log1 = log0 @ [HighSalaryCount (length high_salary_rdd)];
          dept_salary_rdd = map (\<lambda>row. (department row, salary row)) df;
          log2 = log1 @ [Info ''Created department-salary pairs'']
      in bind_err
           (mapValues_try (\<lambda>x. py_truediv (fst x) (snd x))
              (reduceByKey add_pair (mapValues (\<lambda>salary. (salary, 1)) dept_salary_rdd)))
           (\<lambda>dept_avg.
      let log3 = log2 @ [Info ''Calculated average salary by department:'']
                   @ map (\<lambda>(dept, avg_salary). DeptAvgLine dept avg_salary) dept_avg;
          age_groups_rdd = map (\<lambda>row. (age_band (age row), salary row)) df
      in bind_err
           (mapValues_try (\<lambda>x. bind_err (py_truediv (fst x) (snd x)) (\<lambda>q. Inr (q, snd x)))
              (reduceByKey add_pair (mapValues (\<lambda>salary. (salary, 1)) age_groups_rdd)))
           (\<lambda>age_stats.
      let log4 = log3 @ [Info ''Age group statistics:'']
                   @ map (\<lambda>(age_group, avg_salary, count). AgeGroupLine age_group count avg_salary)
                       age_stats
      in Inr \<lparr>logged = log4, dept_avg_salary = dept_avg, age_group_stats = age_stats\<rparr>)))"

text \<open>
  The same function with its first step (source lines 73 to 75, the filter and the log
  line that reports its count) taken out; for comparison with the function as written.
\<close>

definition apply_rdd_transformations_without_filter :: "employee list \<Rightarrow> error + rdd_result" where
  "apply_rdd_transformations_without_filter df =
     (let log0 = [Info ''Converting DataFrame to RDD for transformations...''];
          dept_salary_rdd = map (\<lambda>row. (department row, salary row)) df;
          log2 = log0 @ [Info ''Created department-salary pairs'']
      in bind_err
           (mapValues_try (\<lambda>x. py_truediv (fst x) (snd x))
              (reduceByKey add_pair (mapValues (\<lambda>salary. (salary, 1)) dept_salary_rdd)))
           (\<lambda>dept_avg.
      let log3 = log2 @ [Info ''Calculated average salary by department:'']
                   @ map (\<lambda>(dept, avg_salary). DeptAvgLine dept avg_salary) dept_avg;
          age_groups_rdd = map (\<lambda>row. (age_band (age row), salary row)) df
      in bind_err
           (mapValues_try (\<lambda>x. bind_err (py_truediv (fst x) (snd x)) (\<lambda>q. Inr (q, snd x)))
              (reduceByKey add_pair (mapValues (\<lambda>salary. (salary, 1)) age_groups_rdd)))
           (\<lambda>age_stats.
      let log4 = log3 @ [Info ''Age group statistics:'']
                   @ map (\<lambda>(age_group, avg_salary, count). AgeGroupLine age_group count avg_salary)
                       age_stats
      in Inr \<lparr>logged = log4, dept_avg_salary = dept_avg, age_group_stats = age_stats\<rparr>)))"

section \<open>The tabular aggregator: \<open>apply_dataframe_transformations\<close>\<close>

record dept_stats_row =
  ds_department :: string
  employee_count :: int
  ds_avg_salary :: "rat option"
  avg_age :: "rat option"

record age_stats_row =
  as_age_group :: string
  as_count :: int
  as_avg_salary :: "rat option"

text \<open>The two \<open>withColumn\<close> steps on one row.\<close>

definition add_features :: "employee \<Rightarrow> employee_features" where
  "add_features row =
     employee.extend row
       (employee_features.fields (age_group_col (age row)) (salary_category_col (salary row)))"

definition apply_dataframe_transformations ::
  "employee list \<Rightarrow> employee_features list \<times> dept_stats_row list \<times> age_stats_row list" where
  "apply_dataframe_transformations df =
     (let df_with_features = map add_features df;
          dept_stats =
            map (\<lambda>(k, rows).
                  \<lparr>ds_department = k,
                   employee_count = sql_count rows,
                   ds_avg_salary = sql_avg (map salary rows),
                   avg_age = sql_avg (map age rows)\<rparr>)
              (groupBy department df_with_features);
          age_stats =
            map (\<lambda>(k, rows).
                  \<lparr>as_age_group = k,
                   as_count = sql_count rows,
                   as_avg_salary = sql_avg (map salary rows)\<rparr>)
              (groupBy age_group df_with_features)
      in (df_with_features, dept_stats, age_stats))"

section \<open>The sink and the job\<close>

text \<open>
  The output directory as a map from path to the table last written there;
  \<open>mode("overwrite")\<close> replaces what the path held.
\<close>

datatype parquet =
    ProcessedData "employee_features list"
  | DepartmentStats "dept_stats_row list"
  | AgeStats "age_stats_row list"

type_synonym filesystem = "string \<rightharpoonup> parquet"

definition save_results ::
  "filesystem \<Rightarrow> employee_features list \<Rightarrow> dept_stats_row list \<Rightarrow> age_stats_row list \<Rightarrow> filesystem" where
  "save_results fs df_processed dept_stats age_stats =
     fs(''/opt/ml/code/data/output/processed_data.parquet'' \<mapsto> ProcessedData df_processed,
        ''/opt/ml/code/data/output/department_stats.parquet'' \<mapsto> DepartmentStats dept_stats,
        ''/opt/ml/code/data/output/age_stats.parquet'' \<mapsto> AgeStats age_stats)"

text \<open>
  The three stages \<open>main\<close> runs on the generated DataFrame (source lines 182 to 188):
  the values bound to \<open>dept_avg_salary, age_group_stats\<close> and the files after
  \<open>save_results\<close>. An exception of a stage ends the job before anything is written.
\<close>

definition run_stages :: "filesystem \<Rightarrow> employee list \<Rightarrow> error + (rdd_result \<times> filesystem)" where
  "run_stages fs df =
     bind_err (apply_rdd_transformations df) (\<lambda>r.
       case apply_dataframe_transformations df of
         (df_processed, dept_stats, age_stats) \<Rightarrow>
           Inr (r, save_results fs df_processed dept_stats age_stats))"

definition run_stages_without_filter ::
  "filesystem \<Rightarrow> employee list \<Rightarrow> error + (rdd_result \<times> filesystem)" where
  "run_stages_without_filter fs df =
     bind_err (apply_rdd_transformations_without_filter df) (\<lambda>r.
       case apply_dataframe_transformations df of
         (df_processed, dept_stats, age_stats) \<Rightarrow>
           Inr (r, save_results fs df_processed dept_stats age_stats))"

definition main :: "rng \<Rightarrow> filesystem \<Rightarrow> error + (rdd_result \<times> filesystem)" where
  "main g fs =
     bind_err (create_sample_data g (PyInt 1000)) (\<lambda>(df, g'). run_stages fs df)"

text \<open>The three records of the example scenario.\<close>

definition example_df :: "employee list" where
  "example_df =
     [\<lparr>id' = 1, name = ''A'', age = 25, salary = 40000, department = ''Eng''\<rparr>,
      \<lparr>id' = 2, name = ''B'', age = 35, salary = 60000, department = ''Eng''\<rparr>,
      \<lparr>id' = 3, name = ''C'', age = 28, salary = 80000, department = ''Sales''\<rparr>]"

section \<open>Auxiliary notions for the proofs\<close>

text \<open>
  The sum and the number of the values a bag of \<open>(key, (sum, count))\<close> pairs holds for one
  key, \<open>None\<close> when it holds none; and the combiner lifted to such optional totals.
\<close>

definition totals :: "('k \<times> int \<times> int) multiset \<Rightarrow> 'k \<Rightarrow> (int \<times> int) option" where
  "totals M k =
     (if filter_mset (\<lambda>kv. fst kv = k) M = {#} then None
      else Some (sum_mset (image_mset (\<lambda>kv. fst (snd kv)) (filter_mset (\<lambda>kv. fst kv = k) M)),
                 sum_mset (image_mset (\<lambda>kv. snd (snd kv)) (filter_mset (\<lambda>kv. fst kv = k) M))))"

fun opt_add :: "(int \<times> int) option \<Rightarrow> (int \<times> int) option \<Rightarrow> (int \<times> int) option" where
  "opt_add None y = y"
| "opt_add (Some a) None = Some a"
| "opt_add (Some a) (Some b) = Some (add_pair a b)"

section \<open>Label assignment is a partition\<close>

text \<open>
  C3. The age-band label (in both aggregation paths) and the salary-category label are
  functions defined on every integer, and the three labels of each split the integers
  into three classes without overlap: an age is labelled Young exactly when it is
  below 30, Middle exactly when it is at least 30 and below 50, Senior exactly when it
  is at least 50; a salary is labelled Low exactly when it is below 50000, Medium
  exactly when it is at least 50000 and below 100000, High exactly when it is at least
  100000. So every age and every salary carries exactly one of its three labels.
\<close>

theorem label_partition:
  "(age_band a = ''Young'') = (a < 30)
   \<and> (age_band a = ''Middle'') = (30 \<le> a \<and> a < 50)
   \<and> (age_band a = ''Senior'') = (50 \<le> a)
   \<and> age_group_col a = age_band a
   \<and> (\<exists>!l. l \<in> {''Young'', ''Middle'', ''Senior''} \<and> age_group_col a = l)
   \<and> (salary_category_col s = ''Low'') = (s < 50000)
   \<and> (salary_category_col s = ''Medium'') = (50000 \<le> s \<and> s < 100000)
   \<and> (salary_category_col s = ''High'') = (100000 \<le> s)
   \<and> (\<exists>!l. l \<in> {''Low'', ''Medium'', ''High''} \<and> salary_category_col s = l)"
  by (auto simp: age_band_def age_group_col_def salary_category_col_def)

section \<open>The combine step of the key-value aggregator\<close>

lemma opt_add_None_right [simp]: "opt_add x None = x"
  by (cases x) auto

lemma opt_add_assoc: "opt_add (opt_add x y) z = opt_add x (opt_add y z)"
  by (cases x; cases y; cases z) (auto simp: add_pair_def)

lemma opt_add_commute: "opt_add x y = opt_add y x"
  by (cases x; cases y) (auto simp: add_pair_def)

lemma totals_empty [simp]: "totals {#} k = None"
  by (simp add: totals_def)

lemma totals_single: "totals {#(k, v)#} k' = (if k' = k then Some v else None)"
  by (auto simp: totals_def)

lemma totals_union: "totals (M + N) k = opt_add (totals M k) (totals N k)"
proof -
  define G where "G = filter_mset (\<lambda>kv. fst kv = k) M"
  define H where "H = filter_mset (\<lambda>kv. fst kv = k) N"
  have split: "filter_mset (\<lambda>kv. fst kv = k) (M + N) = G + H"
    by (simp add: G_def H_def)
  show ?thesis
    unfolding totals_def split G_def [symmetric] H_def [symmetric]
    by (cases "G = {#}"; cases "H = {#}") (simp_all add: add_pair_def)
qed

lemma totals_add_mset:
  "totals (add_mset (k, v) M) k' = (if k' = k then opt_add (Some v) (totals M k') else totals M k')"
  using totals_union [of "{#(k, v)#}" M k'] by (simp add: totals_single)

lemma map_of_merge_value:
  "map_of (merge_value f k v acc) k' =
     (if k' = k then Some (case map_of acc k of None \<Rightarrow> v | Some w \<Rightarrow> f w v) else map_of acc k')"
  by (induction acc) auto

lemma map_fst_merge_value:
  "map fst (merge_value f k v acc) =
     (if k \<in> fst ` set acc then map fst acc else map fst acc @ [k])"
  by (induction acc) force+

lemma keys_merge_value: "fst ` set (merge_value f k v acc) = insert k (fst ` set acc)"
  using map_fst_merge_value [of f k v acc, THEN arg_cong, of set]
  by (auto simp del: set_map simp add: set_map [symmetric])

lemma distinct_merge_value:
  "distinct (map fst acc) \<Longrightarrow> distinct (map fst (merge_value f k v acc))"
  by (induction acc) (auto simp: keys_merge_value)

lemma merge_results_Cons:
  "merge_results f acc ((k, v) # kvs) = merge_results f (merge_value f k v acc) kvs"
  by (simp add: merge_results_def)

lemma merge_results_Nil [simp]: "merge_results f acc [] = acc"
  by (simp add: merge_results_def)

lemma distinct_merge_results:
  "distinct (map fst acc) \<Longrightarrow> distinct (map fst (merge_results f acc kvs))"
proof (induction kvs arbitrary: acc)
  case Nil
  then show ?case by simp
next
  case (Cons kv kvs)
  obtain k v where kv: "kv = (k, v)" by (cases kv)
  show ?case
    unfolding kv merge_results_Cons
    by (rule Cons.IH) (rule distinct_merge_value [OF Cons.prems])
qed

lemma keys_merge_results:
  "fst ` set (merge_results f acc kvs) = fst ` set acc \<union> fst ` set kvs"
proof (induction kvs arbitrary: acc)
  case Nil
  then show ?case by simp
next
  case (Cons kv kvs)
  obtain k v where kv: "kv = (k, v)" by (cases kv)
  show ?case
    unfolding kv merge_results_Cons Cons.IH keys_merge_value by auto
qed

lemma map_of_merge_results:
  "map_of (merge_results add_pair acc kvs) k = opt_add (map_of acc k) (totals (mset kvs) k)"
proof (induction kvs arbitrary: acc)
  case Nil
  then show ?case by simp
next
  case (Cons kv kvs)
  obtain k' v where kv: "kv = (k', v)" by (cases kv)
  have "map_of (merge_results add_pair acc (kv # kvs)) k
        = opt_add (map_of (merge_value add_pair k' v acc) k) (totals (mset kvs) k)"
    unfolding kv merge_results_Cons by (rule Cons.IH)
  also have "map_of (merge_value add_pair k' v acc) k
        = opt_add (map_of acc k) (if k = k' then Some v else None)"
    by (cases "map_of acc k'") (auto simp: map_of_merge_value)
  also have "opt_add (opt_add (map_of acc k) (if k = k' then Some v else None)) (totals (mset kvs) k)
        = opt_add (map_of acc k) (totals (mset (kv # kvs)) k)"
    by (simp add: opt_add_assoc kv totals_add_mset)
  finally show ?case .
qed

lemma totals_distinct:
  "distinct (map fst kvs) \<Longrightarrow> totals (mset kvs) k = map_of kvs k"
proof (induction kvs)
  case Nil
  then show ?case by simp
next
  case (Cons kv kvs)
  obtain k' v where kv: "kv = (k', v)" by (cases kv)
  from Cons.prems have notin: "k' \<notin> fst ` set kvs" and d: "distinct (map fst kvs)"
    by (auto simp: kv)
  from notin have "map_of kvs k' = None" by (simp add: map_of_eq_None_iff)
  with Cons.IH [OF d] show ?case
    by (auto simp: kv totals_add_mset)
qed

lemma run_plan_totals:
  "distinct (map fst (run_plan add_pair p)) \<and>
   map_of (run_plan add_pair p) k = totals (plan_items p) k"
proof (induction p arbitrary: k)
  case (Partition kvs)
  show ?case
    by (simp add: reduceByKey_def distinct_merge_results map_of_merge_results)
next
  case (Combine p q)
  have dq: "distinct (map fst (run_plan add_pair q))" using Combine.IH(2) by blast
  have dp: "distinct (map fst (run_plan add_pair p))" using Combine.IH(1) by blast
  have "map_of (run_plan add_pair (Combine p q)) k
        = opt_add (map_of (run_plan add_pair p) k) (totals (mset (run_plan add_pair q)) k)"
    by (simp add: map_of_merge_results)
  also have "\<dots> = opt_add (totals (plan_items p) k) (totals (plan_items q) k)"
    using Combine.IH(1) [of k] Combine.IH(2) [of k] by (simp add: totals_distinct [OF dq])
  finally show ?case
    by (simp add: totals_union distinct_merge_results [OF dp])
qed

text \<open>
  C4. The combine step does not depend on the partitioning or on the order of combining:
  whenever a schedule (any split of the pairs into partitions, folded one by one and
  combined in any bracketing and order) holds exactly the pairs of the input, it ends
  with every key once and with the same (sum, count) pair for every key as the single
  left-to-right fold over the whole input, and therefore with the same outcome of the
  finalizing division sum / count for every key.
\<close>

theorem reduce_plan_independent:
  assumes "plan_items p = mset kvs"
  shows "distinct (map fst (run_plan add_pair p))
    \<and> map_of (run_plan add_pair p) = map_of (reduceByKey add_pair kvs)
    \<and> (\<forall>k. map_option (\<lambda>x. py_truediv (fst x) (snd x)) (map_of (run_plan add_pair p) k)
           = map_option (\<lambda>x. py_truediv (fst x) (snd x)) (map_of (reduceByKey add_pair kvs) k))"
proof -
  have "map_of (run_plan add_pair p) k = map_of (reduceByKey add_pair kvs) k" for k
    using run_plan_totals [of p k] assms
    by (simp add: reduceByKey_def map_of_merge_results)
  then have "map_of (run_plan add_pair p) = map_of (reduceByKey add_pair kvs)"
    by (rule ext)
  then show ?thesis
    using run_plan_totals [of p] by simp
qed

theorem reduce_plan_independent_witness:
  "plan_items
     (Combine (Partition [(''Sales'', (80000, 1))])
        (Combine (Partition [(''Eng'', (60000, 1))]) (Partition [(''Eng'', (40000, 1))])))
     = mset (mapValues (\<lambda>salary. (salary, 1))
         (map (\<lambda>row. (department row, salary row)) example_df))
   \<and> map_of
       (run_plan add_pair
         (Combine (Partition [(''Sales'', (80000, 1))])
            (Combine (Partition [(''Eng'', (60000, 1))]) (Partition [(''Eng'', (40000, 1))]))))
     = map_of
         (reduceByKey add_pair
           (mapValues (\<lambda>salary. (salary, 1))
             (map (\<lambda>row. (department row, salary row)) example_df)))"
proof -
  have items:
    "plan_items
       (Combine (Partition [(''Sales'', (80000, 1))])
          (Combine (Partition [(''Eng'', (60000, 1))]) (Partition [(''Eng'', (40000, 1))])))
       = mset (mapValues (\<lambda>salary. (salary, 1))
           (map (\<lambda>row. (department row, salary row)) example_df))"
    by (simp add: mapValues_def example_df_def add_mset_commute)
  show ?thesis
    using items reduce_plan_independent [OF items] by simp
qed

section \<open>What the key-value aggregator computes\<close>

lemma totals_keyed:
  "totals (mset (mapValues (\<lambda>salary. (salary, 1)) (map (\<lambda>row. (key row, val row)) rows))) k =
     (if filter (\<lambda>row. key row = k) rows = [] then None
      else Some (sum_list (map val (filter (\<lambda>row. key row = k) rows)),
                 int (length (filter (\<lambda>row. key row = k) rows))))"
  by (induction rows) (auto simp: mapValues_def totals_add_mset add_pair_def)

lemma map_of_reduce_keyed:
  "map_of (reduceByKey add_pair
            (mapValues (\<lambda>salary. (salary, 1)) (map (\<lambda>row. (key row, val row)) rows))) k =
     (if filter (\<lambda>row. key row = k) rows = [] then None
      else Some (sum_list (map val (filter (\<lambda>row. key row = k) rows)),
                 int (length (filter (\<lambda>row. key row = k) rows))))"
  by (simp add: reduceByKey_def map_of_merge_results totals_keyed)

lemma distinct_reduceByKey: "distinct (map fst (reduceByKey f kvs))"
  by (simp add: reduceByKey_def distinct_merge_results)

lemma keys_reduceByKey: "fst ` set (reduceByKey f kvs) = fst ` set kvs"
  by (simp add: reduceByKey_def keys_merge_results)

lemma reduce_keyed_entry:
  assumes "(k, x) \<in> set (reduceByKey add_pair
            (mapValues (\<lambda>salary. (salary, 1)) (map (\<lambda>row. (key row, val row)) rows)))"
  shows "filter (\<lambda>row. key row = k) rows \<noteq> []
    \<and> x = (sum_list (map val (filter (\<lambda>row. key row = k) rows)),
           int (length (filter (\<lambda>row. key row = k) rows)))"
proof -
  have "map_of (reduceByKey add_pair
            (mapValues (\<lambda>salary. (salary, 1)) (map (\<lambda>row. (key row, val row)) rows))) k = Some x"
    using assms distinct_reduceByKey by (rule map_of_is_SomeI [rotated])
  then show ?thesis
    by (simp add: map_of_reduce_keyed split: if_splits)
qed

lemma reduce_keyed_count_pos:
  assumes "kv \<in> set (reduceByKey add_pair
            (mapValues (\<lambda>salary. (salary, 1)) (map (\<lambda>row. (key row, val row)) rows)))"
  shows "1 \<le> snd (snd kv)"
proof -
  obtain k x where kv: "kv = (k, x)" by (cases kv)
  have "filter (\<lambda>row. key row = k) rows \<noteq> []"
    and "x = (sum_list (map val (filter (\<lambda>row. key row = k) rows)),
           int (length (filter (\<lambda>row. key row = k) rows)))"
    using reduce_keyed_entry [of k x key val rows] assms by (simp_all add: kv)
  then show ?thesis
    by (cases "filter (\<lambda>row. key row = k) rows") (simp_all add: kv)
qed

lemma mapValues_try_total:
  assumes "\<forall>kv \<in> set kvs. \<exists>w. f (snd kv) = Inr w"
  shows "mapValues_try f kvs = Inr (mapValues (\<lambda>v. projr (f v)) kvs)"
  using assms by (induction kvs) (auto simp: mapValues_def)

lemma map_of_mapValues: "map_of (mapValues f kvs) k = map_option f (map_of kvs k)"
  by (induction kvs) (auto simp: mapValues_def)

lemma keys_mapValues: "map fst (mapValues f kvs) = map fst kvs"
  by (induction kvs) (auto simp: mapValues_def)

lemma mapValues_cong:
  "(\<And>kv. kv \<in> set kvs \<Longrightarrow> f (snd kv) = g (snd kv)) \<Longrightarrow> mapValues f kvs = mapValues g kvs"
  by (auto simp: mapValues_def)

lemma dept_finalize_total:
  "mapValues_try (\<lambda>x. py_truediv (fst x) (snd x))
     (reduceByKey add_pair
       (mapValues (\<lambda>salary. (salary, 1)) (map (\<lambda>row. (key row, val row)) rows)))
   = Inr (mapValues (\<lambda>x. of_int (fst x) / of_int (snd x))
       (reduceByKey add_pair
         (mapValues (\<lambda>salary. (salary, 1)) (map (\<lambda>row. (key row, val row)) rows))))"
proof -
  let ?red = "reduceByKey add_pair
       (mapValues (\<lambda>salary. (salary, 1)) (map (\<lambda>row. (key row, val row)) rows))"
  have pos: "snd (snd kv) \<noteq> 0" if "kv \<in> set ?red" for kv
    using reduce_keyed_count_pos [OF that] by simp
  have "mapValues_try (\<lambda>x. py_truediv (fst x) (snd x)) ?red
        = Inr (mapValues (\<lambda>v. projr (py_truediv (fst v) (snd v))) ?red)"
    by (rule mapValues_try_total) (simp add: py_truediv_def pos)
  also have "mapValues (\<lambda>v. projr (py_truediv (fst v) (snd v))) ?red
        = mapValues (\<lambda>x. of_int (fst x) / of_int (snd x)) ?red"
    by (rule mapValues_cong) (simp add: py_truediv_def pos)
  finally show ?thesis .
qed

lemma age_finalize_total:
  "mapValues_try (\<lambda>x. bind_err (py_truediv (fst x) (snd x)) (\<lambda>q. Inr (q, snd x)))
     (reduceByKey add_pair
       (mapValues (\<lambda>salary. (salary, 1)) (map (\<lambda>row. (key row, val row)) rows)))
   = Inr (mapValues (\<lambda>x. (of_int (fst x) / of_int (snd x), snd x))
       (reduceByKey add_pair
         (mapValues (\<lambda>salary. (salary, 1)) (map (\<lambda>row. (key row, val row)) rows))))"
proof -
  let ?red = "reduceByKey add_pair
       (mapValues (\<lambda>salary. (salary, 1)) (map (\<lambda>row. (key row, val row)) rows))"
  let ?f = "\<lambda>x. bind_err (py_truediv (fst x) (snd x)) (\<lambda>q. Inr (q, snd x))"
  have pos: "snd (snd kv) \<noteq> 0" if "kv \<in> set ?red" for kv
    using reduce_keyed_count_pos [OF that] by simp
  have "mapValues_try ?f ?red = Inr (mapValues (\<lambda>v. projr (?f v)) ?red)"
    by (rule mapValues_try_total) (simp add: py_truediv_def bind_err_def pos)
  also have "mapValues (\<lambda>v. projr (?f v)) ?red
        = mapValues (\<lambda>x. (of_int (fst x) / of_int (snd x), snd x)) ?red"
    by (rule mapValues_cong) (simp add: py_truediv_def bind_err_def pos)
  finally show ?thesis .
qed

lemma apply_rdd_transformations_results:
  "\<exists>lg. apply_rdd_transformations df =
     Inr \<lparr>logged = lg,
          dept_avg_salary =
            mapValues (\<lambda>x. of_int (fst x) / of_int (snd x))
              (reduceByKey add_pair
                (mapValues (\<lambda>salary. (salary, 1)) (map (\<lambda>row. (department row, salary row)) df))),
          age_group_stats =
            mapValues (\<lambda>x. (of_int (fst x) / of_int (snd x), snd x))
              (reduceByKey add_pair
                (mapValues (\<lambda>salary. (salary, 1))
                  (map (\<lambda>row. (age_band (age row), salary row)) df)))\<rparr>"
  unfolding apply_rdd_transformations_def Let_def dept_finalize_total age_finalize_total
  by (simp add: bind_err_def)

lemma apply_rdd_transformations_without_filter_results:
  "\<exists>lg. apply_rdd_transformations_without_filter df =
     Inr \<lparr>logged = lg,
          dept_avg_salary =
            mapValues (\<lambda>x. of_int (fst x) / of_int (snd x))
              (reduceByKey add_pair
                (mapValues (\<lambda>salary. (salary, 1)) (map (\<lambda>row. (department row, salary row)) df))),
          age_group_stats =
            mapValues (\<lambda>x. (of_int (fst x) / of_int (snd x), snd x))
              (reduceByKey add_pair
                (mapValues (\<lambda>salary. (salary, 1))
                  (map (\<lambda>row. (age_band (age row), salary row)) df)))\<rparr>"
  unfolding apply_rdd_transformations_without_filter_def Let_def dept_finalize_total age_finalize_total
  by (simp add: bind_err_def)

lemma add_features_fields [simp]:
  "id' (add_features r) = id' r" "name (add_features r) = name r"
  "age (add_features r) = age r" "salary (add_features r) = salary r"
  "department (add_features r) = department r"
  "age_group (add_features r) = age_group_col (age r)"
  "salary_category (add_features r) = salary_category_col (salary r)"
  by (simp_all add: add_features_def employee.extend_def employee_features.fields_def)

lemma map_of_groupBy:
  "map_of (map (\<lambda>(k, g). (k, F g)) (groupBy key rows)) k =
     (if filter (\<lambda>r. key r = k) rows = [] then None
      else Some (F (filter (\<lambda>r. key r = k) rows)))"
proof -
  have "map (\<lambda>(k, g). (k, F g)) (groupBy key rows)
        = map (\<lambda>k. (k, F (filter (\<lambda>r. key r = k) rows))) (remdups (map key rows))"
    by (simp add: groupBy_def)
  moreover have "(filter (\<lambda>r. key r = k) rows = []) = (k \<notin> set (remdups (map key rows)))"
    by (auto simp: filter_empty_conv)
  ultimately show ?thesis
    by (simp add: map_of_map_restrict restrict_map_def del: set_remdups)
qed

lemma distinct_groupBy: "distinct (map fst (groupBy key rows))"
  by (simp add: groupBy_def comp_def)

lemma length_filter_key:
  "length (filter (\<lambda>r. key r = k) rows) = count_list (map key rows) k"
  by (induction rows) auto

lemma sum_count_groupBy:
  "sum_list (map (\<lambda>(k, g). sql_count g) (groupBy key rows)) = int (length rows)"
proof -
  have "sum_list (map (\<lambda>(k, g). sql_count g) (groupBy key rows))
        = sum_list (map (\<lambda>k. int (count_list (map key rows) k)) (remdups (map key rows)))"
    by (simp add: groupBy_def sql_count_def comp_def length_filter_key)
  also have "\<dots> = (\<Sum>k\<in>set (map key rows). int (count_list (map key rows) k))"
    by (simp add: sum_list_distinct_conv_sum_set)
  also have "\<dots> = int (\<Sum>k\<in>set (map key rows). count_list (map key rows) k)"
    by simp
  also have "(\<Sum>k\<in>set (map key rows). count_list (map key rows) k) = length (map key rows)"
    by (rule sum_count_set) simp_all
  finally show ?thesis by simp
qed

section \<open>The two aggregation paths agree\<close>

lemma age_group_col_eq: "age_group_col a = age_band a"
  by (simp add: age_group_col_def age_band_def)

lemma filter_add_features:
  "filter (\<lambda>r. key r = k) (map add_features df)
     = map add_features (filter (\<lambda>r. key (add_features r) = k) df)"
  by (simp add: filter_map comp_def)

lemma sql_avg_nonempty:
  "xs \<noteq> [] \<Longrightarrow> sql_avg (map f xs) = Some (of_int (sum_list (map f xs)) / of_int (int (length xs)))"
  by (simp add: sql_avg_def)

lemma dept_stats_lookup:
  "map_of (map (\<lambda>row. (ds_department row, ds_avg_salary row))
            (fst (snd (apply_dataframe_transformations df)))) d =
     (if filter (\<lambda>r. department r = d) df = [] then None
      else Some (Some (of_int (sum_list (map salary (filter (\<lambda>r. department r = d) df)))
                        / of_int (int (length (filter (\<lambda>r. department r = d) df))))))"
proof -
  have "map (\<lambda>row. (ds_department row, ds_avg_salary row))
            (fst (snd (apply_dataframe_transformations df)))
        = map (\<lambda>(k, g). (k, sql_avg (map salary g))) (groupBy department (map add_features df))"
    by (simp add: apply_dataframe_transformations_def Let_def comp_def case_prod_beta)
  then show ?thesis
    by (simp add: map_of_groupBy filter_add_features comp_def sql_avg_nonempty)
qed

lemma age_stats_lookup:
  "map_of (map (\<lambda>row. (as_age_group row, as_avg_salary row))
            (snd (snd (apply_dataframe_transformations df)))) b =
     (if filter (\<lambda>r. age_band (age r) = b) df = [] then None
      else Some (Some (of_int (sum_list (map salary (filter (\<lambda>r. age_band (age r) = b) df)))
                        / of_int (int (length (filter (\<lambda>r. age_band (age r) = b) df))))))"
proof -
  have "map (\<lambda>row. (as_age_group row, as_avg_salary row))
            (snd (snd (apply_dataframe_transformations df)))
        = map (\<lambda>(k, g). (k, sql_avg (map salary g))) (groupBy age_group (map add_features df))"
    by (simp add: apply_dataframe_transformations_def Let_def comp_def case_prod_beta)
  then show ?thesis
    by (simp add: map_of_groupBy filter_add_features comp_def sql_avg_nonempty age_group_col_eq)
qed

lemma dept_stats_keys:
  "map ds_department (fst (snd (apply_dataframe_transformations df)))
     = map fst (groupBy department (map add_features df))"
  by (simp add: apply_dataframe_transformations_def Let_def comp_def case_prod_beta)

lemma age_stats_keys:
  "map as_age_group (snd (snd (apply_dataframe_transformations df)))
     = map fst (groupBy age_group (map add_features df))"
  by (simp add: apply_dataframe_transformations_def Let_def comp_def case_prod_beta)

lemma filter_empty_iff_key: "(filter (\<lambda>r. key r = k) rows = []) = (k \<notin> key ` set rows)"
  by (auto simp: filter_empty_conv)

text \<open>
  C1. For every input the key-value aggregator returns, and its result and the tabular
  aggregator's give the same average salary for every department and for every age
  band: read as maps from key to average, the two department results are equal and the
  two age-band results are equal, each result lists a key once, and the keys are
  exactly the departments, respectively the age bands, of the input rows. Averages are
  exact quotients, so the equality is exact; the rounding of the floats is not modelled.
\<close>

theorem aggregators_agree:
  "\<exists>r. apply_rdd_transformations df = Inr r
     \<and> (case apply_dataframe_transformations df of
          (df_processed, dept_stats, age_stats) \<Rightarrow>
            (\<forall>d. map_of (map (\<lambda>row. (ds_department row, ds_avg_salary row)) dept_stats) d
                  = map_option Some (map_of (dept_avg_salary r) d))
          \<and> (\<forall>b. map_of (map (\<lambda>row. (as_age_group row, as_avg_salary row)) age_stats) b
                  = map_option (\<lambda>x. Some (fst x)) (map_of (age_group_stats r) b))
          \<and> distinct (map ds_department dept_stats)
          \<and> distinct (map as_age_group age_stats))
     \<and> distinct (map fst (dept_avg_salary r))
     \<and> distinct (map fst (age_group_stats r))
     \<and> dom (map_of (dept_avg_salary r)) = department ` set df
     \<and> dom (map_of (age_group_stats r)) = (\<lambda>row. age_band (age row)) ` set df"
proof -
  obtain lg where r: "apply_rdd_transformations df =
     Inr \<lparr>logged = lg,
          dept_avg_salary =
            mapValues (\<lambda>x. of_int (fst x) / of_int (snd x))
              (reduceByKey add_pair
                (mapValues (\<lambda>salary. (salary, 1)) (map (\<lambda>row. (department row, salary row)) df))),
          age_group_stats =
            mapValues (\<lambda>x. (of_int (fst x) / of_int (snd x), snd x))
              (reduceByKey add_pair
                (mapValues (\<lambda>salary. (salary, 1))
                  (map (\<lambda>row. (age_band (age row), salary row)) df)))\<rparr>"
    using apply_rdd_transformations_results [of df] by blast
  let ?r = "\<lparr>logged = lg,
          dept_avg_salary =
            mapValues (\<lambda>x. of_int (fst x) / of_int (snd x))
              (reduceByKey add_pair
                (mapValues (\<lambda>salary. (salary, 1)) (map (\<lambda>row. (department row, salary row)) df))),
          age_group_stats =
            mapValues (\<lambda>x. (of_int (fst x) / of_int (snd x), snd x))
              (reduceByKey add_pair
                (mapValues (\<lambda>salary. (salary, 1))
                  (map (\<lambda>row. (age_band (age row), salary row)) df)))\<rparr>"
  have dept: "map_of (map (\<lambda>row. (ds_department row, ds_avg_salary row))
            (fst (snd (apply_dataframe_transformations df)))) d
        = map_option Some (map_of (dept_avg_salary ?r) d)" for d
    by (simp add: dept_stats_lookup map_of_mapValues map_of_reduce_keyed)
  have ageb: "map_of (map (\<lambda>row. (as_age_group row, as_avg_salary row))
            (snd (snd (apply_dataframe_transformations df)))) b
        = map_option (\<lambda>x. Some (fst x)) (map_of (age_group_stats ?r) b)" for b
    by (simp add: age_stats_lookup map_of_mapValues map_of_reduce_keyed)
  have d1: "distinct (map ds_department (fst (snd (apply_dataframe_transformations df))))"
    by (simp only: dept_stats_keys distinct_groupBy)
  have d2: "distinct (map as_age_group (snd (snd (apply_dataframe_transformations df))))"
    by (simp only: age_stats_keys distinct_groupBy)
  have d3: "distinct (map fst (dept_avg_salary ?r))"
    by (simp add: keys_mapValues distinct_reduceByKey)
  have d4: "distinct (map fst (age_group_stats ?r))"
    by (simp add: keys_mapValues distinct_reduceByKey)
  have k1: "dom (map_of (dept_avg_salary ?r)) = department ` set df"
    by (auto simp: dom_def map_of_mapValues map_of_reduce_keyed filter_empty_iff_key)
  have k2: "dom (map_of (age_group_stats ?r)) = (\<lambda>row. age_band (age row)) ` set df"
    by (auto simp: dom_def map_of_mapValues map_of_reduce_keyed filter_empty_iff_key)
  show ?thesis
    unfolding r
    apply (rule exI [of _ ?r])
    apply (simp only: case_prod_beta)
    using dept ageb d1 d2 d3 d4 k1 k2 apply blast
    done
qed

section \<open>Group counts\<close>

lemma sum_counts_merge_value:
  "sum_list (map (\<lambda>kv. snd (snd kv)) (merge_value add_pair k v acc))
     = sum_list (map (\<lambda>kv. snd (snd kv)) acc) + snd v"
  by (induction acc) (auto simp: add_pair_def)

lemma sum_counts_merge_results:
  "sum_list (map (\<lambda>kv. snd (snd kv)) (merge_results add_pair acc kvs))
     = sum_list (map (\<lambda>kv. snd (snd kv)) acc) + sum_list (map (\<lambda>kv. snd (snd kv)) kvs)"
proof (induction kvs arbitrary: acc)
  case Nil
  then show ?case by simp
next
  case (Cons kv kvs)
  obtain k v where kv: "kv = (k, v)" by (cases kv)
  show ?case
    unfolding kv merge_results_Cons Cons.IH sum_counts_merge_value by simp
qed

lemma sum_counts_reduce_keyed:
  "sum_list (map (\<lambda>kv. snd (snd kv))
      (reduceByKey add_pair
        (mapValues (\<lambda>salary. (salary, 1)) (map (\<lambda>row. (key row, val row)) rows))))
     = int (length rows)"
  by (simp add: reduceByKey_def sum_counts_merge_results mapValues_def comp_def case_prod_beta
      sum_list_triv)

lemma dept_stats_counts:
  "map employee_count (fst (snd (apply_dataframe_transformations df)))
     = map (\<lambda>(k, g). sql_count g) (groupBy department (map add_features df))"
  by (simp add: apply_dataframe_transformations_def Let_def comp_def case_prod_beta)

lemma age_stats_counts:
  "map as_count (snd (snd (apply_dataframe_transformations df)))
     = map (\<lambda>(k, g). sql_count g) (groupBy age_group (map add_features df))"
  by (simp add: apply_dataframe_transformations_def Let_def comp_def case_prod_beta)


text \<open>
  C8. The group counts partition the input: for every input of N rows the
  \<open>employee_count\<close> values of the department statistics sum to N, the \<open>count\<close> values
  of the tabular age statistics sum to N, and the counts of the key-value age-band
  statistics sum to N.
\<close>

theorem group_counts_sum_to_input_size:
  "(case apply_dataframe_transformations df of
      (df_processed, dept_stats, age_stats) \<Rightarrow>
        sum_list (map employee_count dept_stats) = int (length df)
        \<and> sum_list (map as_count age_stats) = int (length df))
   \<and> (\<exists>r. apply_rdd_transformations df = Inr r
         \<and> sum_list (map (\<lambda>(age_group, avg_salary, count). count) (age_group_stats r))
             = int (length df))"
proof -
  have tab: "sum_list (map employee_count (fst (snd (apply_dataframe_transformations df))))
               = int (length df)"
    "sum_list (map as_count (snd (snd (apply_dataframe_transformations df)))) = int (length df)"
    by (simp_all only: dept_stats_counts age_stats_counts sum_count_groupBy length_map)
  obtain lg where r: "apply_rdd_transformations df =
     Inr \<lparr>logged = lg,
          dept_avg_salary =
            mapValues (\<lambda>x. of_int (fst x) / of_int (snd x))
              (reduceByKey add_pair
                (mapValues (\<lambda>salary. (salary, 1)) (map (\<lambda>row. (department row, salary row)) df))),
          age_group_stats =
            mapValues (\<lambda>x. (of_int (fst x) / of_int (snd x), snd x))
              (reduceByKey add_pair
                (mapValues (\<lambda>salary. (salary, 1))
                  (map (\<lambda>row. (age_band (age row), salary row)) df)))\<rparr>"
    using apply_rdd_transformations_results [of df] by blast
  have "map (\<lambda>(age_group, avg_salary, count). count) (mapValues (\<lambda>x. (f x, snd x)) kvs)
          = map (\<lambda>kv. snd (snd kv)) kvs" for f :: "int \<times> int \<Rightarrow> rat" and kvs :: "(string \<times> int \<times> int) list"
    by (simp add: mapValues_def comp_def case_prod_beta)
  then have kv: "\<exists>r. apply_rdd_transformations df = Inr r
         \<and> sum_list (map (\<lambda>(age_group, avg_salary, count). count) (age_group_stats r))
             = int (length df)"
    unfolding r by (simp add: sum_counts_reduce_keyed)
  show ?thesis
    using tab kv by (simp add: case_prod_beta)
qed


section \<open>The feature columns\<close>

text \<open>
  C9. The feature-derivation step only adds columns: the augmented table has as many
  rows as the input, every row of it agrees with the input row at the same position on
  \<open>id\<close>, \<open>name\<close>, \<open>age\<close>, \<open>salary\<close> and \<open>department\<close> (dropping the two added columns
  gives the input back), and the two added columns hold the labels of the row's age and
  salary.
\<close>

theorem features_keep_the_input_columns:
  "case apply_dataframe_transformations df of
     (df_with_features, dept_stats, age_stats) \<Rightarrow>
       length df_with_features = length df
       \<and> map employee.truncate df_with_features = df
       \<and> map (\<lambda>r. (id' r, name r, age r, salary r, department r)) df_with_features
           = map (\<lambda>r. (id' r, name r, age r, salary r, department r)) df
       \<and> map age_group df_with_features = map (\<lambda>r. age_group_col (age r)) df
       \<and> map salary_category df_with_features = map (\<lambda>r. salary_category_col (salary r)) df"
  by (simp add: apply_dataframe_transformations_def Let_def comp_def add_features_def
      employee.truncate_def employee.extend_def employee_features.fields_def map_idI)


section \<open>The example scenario\<close>

text \<open>
  C5. On the three records (1, A, 25, 40000, Eng), (2, B, 35, 60000, Eng),
  (3, C, 28, 80000, Sales) the key-value aggregator returns the department averages
  Eng 50000 and Sales 80000 and the age-band averages Young 60000 (two records) and
  Middle 60000 (one record), and the tabular aggregator's two statistics tables hold the
  same averages.
\<close>

theorem example_scenario:
  "apply_rdd_transformations example_df =
     Inr \<lparr>logged =
            [Info ''Converting DataFrame to RDD for transformations...'',
             HighSalaryCount 2,
             Info ''Created department-salary pairs'',
             Info ''Calculated average salary by department:'',
             DeptAvgLine ''Eng'' 50000, DeptAvgLine ''Sales'' 80000,
             Info ''Age group statistics:'',
             AgeGroupLine ''Young'' 2 60000, AgeGroupLine ''Middle'' 1 60000],
          dept_avg_salary = [(''Eng'', 50000), (''Sales'', 80000)],
          age_group_stats = [(''Young'', 60000, 2), (''Middle'', 60000, 1)]\<rparr>
   \<and> fst (snd (apply_dataframe_transformations example_df)) =
       [\<lparr>ds_department = ''Eng'', employee_count = 2, ds_avg_salary = Some 50000,
          avg_age = Some 30\<rparr>,
        \<lparr>ds_department = ''Sales'', employee_count = 1, ds_avg_salary = Some 80000,
          avg_age = Some 28\<rparr>]
   \<and> snd (snd (apply_dataframe_transformations example_df)) =
       [\<lparr>as_age_group = ''Middle'', as_count = 1, as_avg_salary = Some 60000\<rparr>,
        \<lparr>as_age_group = ''Young'', as_count = 2, as_avg_salary = Some 60000\<rparr>]"
  by (simp add: apply_rdd_transformations_def apply_dataframe_transformations_def example_df_def
      Let_def bind_err_def mapValues_def reduceByKey_def merge_results_def py_truediv_def
      add_pair_def age_band_def groupBy_def sql_count_def sql_avg_def age_group_col_def)

section \<open>The record generator\<close>

lemma randint_in_range:
  "a \<le> b \<Longrightarrow> \<exists>v g'. randint g a b = Inr (v, g') \<and> a \<le> v \<and> v \<le> b"
proof -
  assume ab: "a \<le> b"
  then have pos: "0 < b - a + 1" by simp
  have "0 \<le> int (fst (next_draw g)) mod (b - a + 1)"
    using pos by (rule pos_mod_sign)
  moreover have "int (fst (next_draw g)) mod (b - a + 1) < b - a + 1"
    using pos by (rule pos_mod_bound)
  ultimately have "a \<le> a + int (fst (next_draw g)) mod (b - a + 1)"
    and "a + int (fst (next_draw g)) mod (b - a + 1) \<le> b"
    by linarith+
  then show ?thesis
    using ab by (simp add: randint_def)
qed

lemma choice_in_list:
  "xs \<noteq> [] \<Longrightarrow> \<exists>v g'. choice g xs = Inr (v, g') \<and> v \<in> set xs"
  by (simp add: choice_def)

lemma generate_record_in_domain:
  "\<exists>r g'. generate_record g = Inr (r, g')
     \<and> 1 \<le> id' r \<and> id' r \<le> 10000
     \<and> name r \<in> set names
     \<and> 22 \<le> age r \<and> age r \<le> 65
     \<and> 30000 \<le> salary r \<and> salary r \<le> 150000
     \<and> department r \<in> set departments"
proof -
  obtain i g1 where 1: "randint g 1 10000 = Inr (i, g1)" "1 \<le> i" "i \<le> 10000"
    using randint_in_range [of 1 10000 g] by force
  have "names \<noteq> []" by (simp add: names_def)
  then obtain n g2 where 2: "choice g1 names = Inr (n, g2)" "n \<in> set names"
    using choice_in_list [of names g1] by blast
  obtain a g3 where 3: "randint g2 22 65 = Inr (a, g3)" "22 \<le> a" "a \<le> 65"
    using randint_in_range [of 22 65 g2] by force
  obtain s g4 where 4: "randint g3 30000 150000 = Inr (s, g4)" "30000 \<le> s" "s \<le> 150000"
    using randint_in_range [of 30000 150000 g3] by force
  have "departments \<noteq> []" by (simp add: departments_def)
  then obtain d g5 where 5: "choice g4 departments = Inr (d, g5)" "d \<in> set departments"
    using choice_in_list [of departments g4] by blast
  show ?thesis
    using 1 2 3 4 5 by (simp add: generate_record_def bind_err_def)
qed

lemma generate_records_in_domain:
  "\<exists>rs g'. generate_records n g = Inr (rs, g')
     \<and> length rs = n
     \<and> (\<forall>r \<in> set rs.
           1 \<le> id' r \<and> id' r \<le> 10000
         \<and> name r \<in> set names
         \<and> 22 \<le> age r \<and> age r \<le> 65
         \<and> 30000 \<le> salary r \<and> salary r \<le> 150000
         \<and> department r \<in> set departments)"
proof (induction n arbitrary: g)
  case 0
  then show ?case by simp
next
  case (Suc n)
  obtain r g1 where r: "generate_record g = Inr (r, g1)"
    "1 \<le> id' r \<and> id' r \<le> 10000 \<and> name r \<in> set names \<and> 22 \<le> age r \<and> age r \<le> 65
     \<and> 30000 \<le> salary r \<and> salary r \<le> 150000 \<and> department r \<in> set departments"
    using generate_record_in_domain [of g] by blast
  obtain rs g2 where rs: "generate_records n g1 = Inr (rs, g2)" "length rs = n"
    "\<forall>r \<in> set rs.
           1 \<le> id' r \<and> id' r \<le> 10000
         \<and> name r \<in> set names
         \<and> 22 \<le> age r \<and> age r \<le> 65
         \<and> 30000 \<le> salary r \<and> salary r \<le> 150000
         \<and> department r \<in> set departments"
    using Suc.IH [of g1] by blast
  show ?case
    using r rs by simp
qed


text \<open>
  C2. For every row count N of at least 1 and every state of the random source, the
  generator returns a DataFrame of exactly N records, and every record has its id in
  1..10000, its age in 22..65, its salary in 30000..150000, its name among the eight
  names and its department among the five departments.
\<close>

theorem generator_yields_n_records_in_domain:
  assumes "1 \<le> n"
  shows "\<exists>df g'. create_sample_data g (PyInt n) = Inr (df, g')
     \<and> int (length df) = n
     \<and> (\<forall>r \<in> set df.
           1 \<le> id' r \<and> id' r \<le> 10000
         \<and> 22 \<le> age r \<and> age r \<le> 65
         \<and> 30000 \<le> salary r \<and> salary r \<le> 150000
         \<and> name r \<in> set names
         \<and> department r \<in> set departments)
     \<and> length names = 8 \<and> distinct names
     \<and> length departments = 5 \<and> distinct departments"
proof -
  obtain rs g1 where rs: "generate_records (nat n) g = Inr (rs, g1)" "length rs = nat n"
    "\<forall>r \<in> set rs.
           1 \<le> id' r \<and> id' r \<le> 10000
         \<and> name r \<in> set names
         \<and> 22 \<le> age r \<and> age r \<le> 65
         \<and> 30000 \<le> salary r \<and> salary r \<le> 150000
         \<and> department r \<in> set departments"
    using generate_records_in_domain [of "nat n" g] by blast
  from rs(2) assms have ne: "rs \<noteq> []" by auto
  then have "toDF rs = Inr rs"
    by (cases rs) (simp_all add: toDF_def)
  then have "create_sample_data g (PyInt n) = Inr (rs, g1)"
    using rs(1) by (simp add: create_sample_data_def py_range_def bind_err_def)
  moreover have "int (length rs) = n"
    using rs(2) assms by simp
  moreover have "length names = 8 \<and> distinct names \<and> length departments = 5 \<and> distinct departments"
    by (simp add: names_def departments_def)
  ultimately show ?thesis
    using rs(3) by auto
qed

text \<open>The generator run on two rows, from the random source whose raw draws are 3, 10, 17, ...\<close>

theorem generator_yields_n_records_in_domain_witness:
  "(1::int) \<le> 2
   \<and> create_sample_data (\<lambda>i. 7 * i + 3) (PyInt 2) =
       Inr ([\<lparr>id' = 4, name = ''Charlie'', age = 39, salary = 30024, department = ''Sales''\<rparr>,
             \<lparr>id' = 39, name = ''Frank'', age = 30, salary = 30059, department = ''Sales''\<rparr>],
            \<lambda>i. 7 * (i + 10) + 3)"
proof -
  have n: "(1::int) \<le> 2" by simp
  have run: "create_sample_data (\<lambda>i. 7 * i + 3) (PyInt 2) =
       Inr ([\<lparr>id' = 4, name = ''Charlie'', age = 39, salary = 30024, department = ''Sales''\<rparr>,
             \<lparr>id' = 39, name = ''Frank'', age = 30, salary = 30059, department = ''Sales''\<rparr>],
            \<lambda>i. 7 * (i + 10) + 3)"
    by (simp add: create_sample_data_def py_range_def bind_err_def generate_record_def
        randint_def choice_def next_draw_def names_def departments_def toDF_def
        numeral_2_eq_2)
  show ?thesis
    using n run generator_yields_n_records_in_domain [OF n, of "\<lambda>i. 7 * i + 3"] by simp
qed


text \<open>
  C6. An invalid row count makes the generator raise instead of returning an empty
  dataset: for zero and for every negative count the list of records is empty and the
  engine's \<open>toDF\<close> raises \<open>ValueError("RDD is empty")\<close>; for a float, a string or
  \<open>None\<close> the \<open>range\<close> of the list comprehension raises a TypeError naming the type.
\<close>

theorem invalid_count_raises:
  "(n \<le> 0 \<longrightarrow> create_sample_data g (PyInt n) = Inl (ValueError ''RDD is empty''))
   \<and> create_sample_data g (PyBool False) = Inl (ValueError ''RDD is empty'')
   \<and> create_sample_data g (PyFloat x) =
       Inl (TypeError ''float object cannot be interpreted as an integer'')
   \<and> create_sample_data g (PyStr s) =
       Inl (TypeError ''str object cannot be interpreted as an integer'')
   \<and> create_sample_data g PyNone =
       Inl (TypeError ''NoneType object cannot be interpreted as an integer'')"
  by (simp add: create_sample_data_def py_range_def bind_err_def toDF_def)

theorem invalid_count_raises_witness:
  "(-5::int) \<le> 0
   \<and> create_sample_data (\<lambda>i. 7 * i + 3) (PyInt (-5)) = Inl (ValueError ''RDD is empty'')
   \<and> create_sample_data (\<lambda>i. 7 * i + 3) (PyInt 0) = Inl (ValueError ''RDD is empty'')"
  using invalid_count_raises [of "-5" "\<lambda>i. 7 * i + 3"] invalid_count_raises [of 0 "\<lambda>i. 7 * i + 3"]
  by simp

section \<open>No division by zero\<close>

lemma groupBy_groups:
  "(k, g) \<in> set (groupBy key rows) \<Longrightarrow> k \<in> key ` set rows \<and> g = filter (\<lambda>r. key r = k) rows \<and> g \<noteq> []"
  by (auto simp: groupBy_def filter_empty_conv)

lemma dept_stats_rows:
  assumes "row \<in> set (fst (snd (apply_dataframe_transformations df)))"
  shows "1 \<le> employee_count row \<and> ds_avg_salary row \<noteq> None \<and> avg_age row \<noteq> None
    \<and> ds_department row \<in> department ` set df"
proof -
  from assms obtain k g where kg: "(k, g) \<in> set (groupBy department (map add_features df))"
    and row: "row = \<lparr>ds_department = k, employee_count = sql_count g,
                     ds_avg_salary = sql_avg (map salary g), avg_age = sql_avg (map age g)\<rparr>"
    by (auto simp: apply_dataframe_transformations_def Let_def)
  from groupBy_groups [OF kg] have "g \<noteq> []" and "k \<in> department ` set (map add_features df)"
    by blast+
  then show ?thesis
    by (cases g) (auto simp: row sql_count_def sql_avg_def)
qed

lemma age_stats_rows:
  assumes "row \<in> set (snd (snd (apply_dataframe_transformations df)))"
  shows "1 \<le> as_count row \<and> as_avg_salary row \<noteq> None
    \<and> as_age_group row \<in> (\<lambda>r. age_band (age r)) ` set df"
proof -
  from assms obtain k g where kg: "(k, g) \<in> set (groupBy age_group (map add_features df))"
    and row: "row = \<lparr>as_age_group = k, as_count = sql_count g,
                     as_avg_salary = sql_avg (map salary g)\<rparr>"
    by (auto simp: apply_dataframe_transformations_def Let_def)
  from groupBy_groups [OF kg] have "g \<noteq> []" and "k \<in> age_group ` set (map add_features df)"
    by blast+
  then show ?thesis
    by (cases g) (auto simp: row sql_count_def sql_avg_def age_group_col_eq)
qed

lemma reduce_keyed_key_present:
  assumes "kv \<in> set (reduceByKey add_pair
            (mapValues (\<lambda>salary. (salary, 1)) (map (\<lambda>row. (key row, val row)) rows)))"
  shows "fst kv \<in> key ` set rows"
proof -
  have "fst kv \<in> fst ` set (reduceByKey add_pair
            (mapValues (\<lambda>salary. (salary, 1)) (map (\<lambda>row. (key row, val row)) rows)))"
    using assms by (rule imageI)
  then show ?thesis
    by (auto simp: keys_reduceByKey mapValues_def)
qed


text \<open>
  C7. The finalizing division never divides by zero, in either path. Every key that
  the combine step of the key-value aggregator holds, for the departments and for the
  age bands, is the key of at least one input row and has a count of at least 1, so its
  division does not raise; the aggregator returns for every input, with exactly the
  keys of the input rows. Every row of the two tabular statistics has a count of at
  least 1, averages that are not null, and a key that occurs in the input.
\<close>

theorem finalize_never_divides_by_zero:
  "(\<forall>kv \<in> set (reduceByKey add_pair
        (mapValues (\<lambda>salary. (salary, 1)) (map (\<lambda>row. (department row, salary row)) df))).
      1 \<le> snd (snd kv) \<and> fst kv \<in> department ` set df
      \<and> py_truediv (fst (snd kv)) (snd (snd kv)) \<noteq> Inl ZeroDivisionError)
   \<and> (\<forall>kv \<in> set (reduceByKey add_pair
        (mapValues (\<lambda>salary. (salary, 1)) (map (\<lambda>row. (age_band (age row), salary row)) df))).
      1 \<le> snd (snd kv) \<and> fst kv \<in> (\<lambda>row. age_band (age row)) ` set df
      \<and> py_truediv (fst (snd kv)) (snd (snd kv)) \<noteq> Inl ZeroDivisionError)
   \<and> (\<exists>r. apply_rdd_transformations df = Inr r
        \<and> fst ` set (dept_avg_salary r) = department ` set df
        \<and> fst ` set (age_group_stats r) = (\<lambda>row. age_band (age row)) ` set df
        \<and> (\<forall>kv \<in> set (age_group_stats r). 1 \<le> snd (snd kv)))
   \<and> (case apply_dataframe_transformations df of
        (df_processed, dept_stats, age_stats) \<Rightarrow>
          (\<forall>row \<in> set dept_stats.
             1 \<le> employee_count row \<and> ds_avg_salary row \<noteq> None \<and> avg_age row \<noteq> None
             \<and> ds_department row \<in> department ` set df)
          \<and> (\<forall>row \<in> set age_stats.
             1 \<le> as_count row \<and> as_avg_salary row \<noteq> None
             \<and> as_age_group row \<in> (\<lambda>row. age_band (age row)) ` set df))"
proof -
  have red: "1 \<le> snd (snd kv) \<and> fst kv \<in> key ` set df
      \<and> py_truediv (fst (snd kv)) (snd (snd kv)) \<noteq> Inl ZeroDivisionError"
    if "kv \<in> set (reduceByKey add_pair
        (mapValues (\<lambda>salary. (salary, 1)) (map (\<lambda>row. (key row, salary row)) df)))"
    for kv and key :: "employee \<Rightarrow> string"
    using reduce_keyed_count_pos [OF that] reduce_keyed_key_present [OF that]
    by (simp add: py_truediv_def)
  obtain lg where r: "apply_rdd_transformations df =
     Inr \<lparr>logged = lg,
          dept_avg_salary =
            mapValues (\<lambda>x. of_int (fst x) / of_int (snd x))
              (reduceByKey add_pair
                (mapValues (\<lambda>salary. (salary, 1)) (map (\<lambda>row. (department row, salary row)) df))),
          age_group_stats =
            mapValues (\<lambda>x. (of_int (fst x) / of_int (snd x), snd x))
              (reduceByKey add_pair
                (mapValues (\<lambda>salary. (salary, 1))
                  (map (\<lambda>row. (age_band (age row), salary row)) df)))\<rparr>"
    using apply_rdd_transformations_results [of df] by blast
  have keys: "fst ` set (mapValues f (reduceByKey add_pair
        (mapValues (\<lambda>salary. (salary, 1)) (map (\<lambda>row. (key row, salary row)) df))))
      = key ` set df"
    for f :: "int \<times> int \<Rightarrow> 'w" and key :: "employee \<Rightarrow> string"
  proof -
    have "fst ` set (mapValues f kvs) = fst ` set kvs" for kvs :: "(string \<times> int \<times> int) list"
      using keys_mapValues [of f kvs, THEN arg_cong, of set] by simp
    then show ?thesis
      by (simp add: keys_reduceByKey) (force simp: mapValues_def)
  qed
  have cnt: "1 \<le> snd (snd kv)"
    if "kv \<in> set (mapValues (\<lambda>x. (of_int (fst x) / of_int (snd x) :: rat, snd x))
              (reduceByKey add_pair
                (mapValues (\<lambda>salary. (salary, 1))
                  (map (\<lambda>row. (age_band (age row), salary row)) df))))" for kv
  proof -
    from that obtain kv' where "kv' \<in> set (reduceByKey add_pair
                (mapValues (\<lambda>salary. (salary, 1))
                  (map (\<lambda>row. (age_band (age row), salary row)) df)))"
      and "snd (snd kv) = snd (snd kv')"
      unfolding mapValues_def [of "\<lambda>x. (of_int (fst x) / of_int (snd x) :: rat, snd x)"]
      by auto
    then show ?thesis
      using reduce_keyed_count_pos [of kv' "\<lambda>row. age_band (age row)" salary df] by simp
  qed
  have kv: "\<exists>r. apply_rdd_transformations df = Inr r
        \<and> fst ` set (dept_avg_salary r) = department ` set df
        \<and> fst ` set (age_group_stats r) = (\<lambda>row. age_band (age row)) ` set df
        \<and> (\<forall>kv \<in> set (age_group_stats r). 1 \<le> snd (snd kv))"
  proof (intro exI conjI)
    show "apply_rdd_transformations df = Inr \<lparr>logged = lg,
          dept_avg_salary =
            mapValues (\<lambda>x. of_int (fst x) / of_int (snd x))
              (reduceByKey add_pair
                (mapValues (\<lambda>salary. (salary, 1)) (map (\<lambda>row. (department row, salary row)) df))),
          age_group_stats =
            mapValues (\<lambda>x. (of_int (fst x) / of_int (snd x), snd x))
              (reduceByKey add_pair
                (mapValues (\<lambda>salary. (salary, 1))
                  (map (\<lambda>row. (age_band (age row), salary row)) df)))\<rparr>"
      by (rule r)
  qed (simp_all add: keys cnt)
  have tab: "case apply_dataframe_transformations df of
        (df_processed, dept_stats, age_stats) \<Rightarrow>
          (\<forall>row \<in> set dept_stats.
             1 \<le> employee_count row \<and> ds_avg_salary row \<noteq> None \<and> avg_age row \<noteq> None
             \<and> ds_department row \<in> department ` set df)
          \<and> (\<forall>row \<in> set age_stats.
             1 \<le> as_count row \<and> as_avg_salary row \<noteq> None
             \<and> as_age_group row \<in> (\<lambda>row. age_band (age row)) ` set df)"
    using dept_stats_rows [of _ df] age_stats_rows [of _ df]
    by (simp add: case_prod_beta)
  have dept: "\<forall>kv \<in> set (reduceByKey add_pair
        (mapValues (\<lambda>salary. (salary, 1)) (map (\<lambda>row. (department row, salary row)) df))).
      1 \<le> snd (snd kv) \<and> fst kv \<in> department ` set df
      \<and> py_truediv (fst (snd kv)) (snd (snd kv)) \<noteq> Inl ZeroDivisionError"
    by (rule ballI) (rule red)
  have band: "\<forall>kv \<in> set (reduceByKey add_pair
        (mapValues (\<lambda>salary. (salary, 1)) (map (\<lambda>row. (age_band (age row), salary row)) df))).
      1 \<le> snd (snd kv) \<and> fst kv \<in> (\<lambda>row. age_band (age row)) ` set df
      \<and> py_truediv (fst (snd kv)) (snd (snd kv)) \<noteq> Inl ZeroDivisionError"
    by (rule ballI) (rule red)
  show ?thesis
    by (rule conjI [OF dept conjI [OF band conjI [OF kv tab]]])
qed

theorem finalize_never_divides_by_zero_witness:
  "reduceByKey add_pair
     (mapValues (\<lambda>salary. (salary, 1)) (map (\<lambda>row. (department row, salary row)) example_df))
     = [(''Eng'', (100000, 2)), (''Sales'', (80000, 1))]
   \<and> reduceByKey add_pair
     (mapValues (\<lambda>salary. (salary, 1)) (map (\<lambda>row. (age_band (age row), salary row)) example_df))
     = [(''Young'', (120000, 2)), (''Middle'', (60000, 1))]
   \<and> py_truediv 100000 2 = Inr 50000
   \<and> (\<exists>r. apply_rdd_transformations example_df = Inr r
         \<and> fst ` set (dept_avg_salary r) = department ` set example_df)"
proof -
  have "\<exists>r. apply_rdd_transformations example_df = Inr r
        \<and> fst ` set (dept_avg_salary r) = department ` set example_df
        \<and> fst ` set (age_group_stats r) = (\<lambda>row. age_band (age row)) ` set example_df
        \<and> (\<forall>kv \<in> set (age_group_stats r). 1 \<le> snd (snd kv))"
    by (rule conjunct1 [OF conjunct2 [OF conjunct2 [OF finalize_never_divides_by_zero]]])
  then have run: "\<exists>r. apply_rdd_transformations example_df = Inr r
         \<and> fst ` set (dept_avg_salary r) = department ` set example_df"
    by blast
  have red: "reduceByKey add_pair
     (mapValues (\<lambda>salary. (salary, 1)) (map (\<lambda>row. (department row, salary row)) example_df))
     = [(''Eng'', (100000, 2)), (''Sales'', (80000, 1))]"
    "reduceByKey add_pair
     (mapValues (\<lambda>salary. (salary, 1)) (map (\<lambda>row. (age_band (age row), salary row)) example_df))
     = [(''Young'', (120000, 2)), (''Middle'', (60000, 1))]"
    "py_truediv 100000 2 = Inr 50000"
    by (simp_all add: example_df_def mapValues_def reduceByKey_def merge_results_def add_pair_def
        age_band_def py_truediv_def)
  show ?thesis
    by (rule conjI [OF red(1) conjI [OF red(2) conjI [OF red(3) run]]])
qed


section \<open>The high-salary filter\<close>

lemma rdd_results_same:
  "map_sum (\<lambda>e. e) (\<lambda>r. (dept_avg_salary r, age_group_stats r)) (apply_rdd_transformations df)
     = map_sum (\<lambda>e. e) (\<lambda>r. (dept_avg_salary r, age_group_stats r))
         (apply_rdd_transformations_without_filter df)"
proof -
  obtain lg where a: "apply_rdd_transformations df =
     Inr \<lparr>logged = lg,
          dept_avg_salary =
            mapValues (\<lambda>x. of_int (fst x) / of_int (snd x))
              (reduceByKey add_pair
                (mapValues (\<lambda>salary. (salary, 1)) (map (\<lambda>row. (department row, salary row)) df))),
          age_group_stats =
            mapValues (\<lambda>x. (of_int (fst x) / of_int (snd x), snd x))
              (reduceByKey add_pair
                (mapValues (\<lambda>salary. (salary, 1))
                  (map (\<lambda>row. (age_band (age row), salary row)) df)))\<rparr>"
    using apply_rdd_transformations_results [of df] by blast
  obtain lg' where b: "apply_rdd_transformations_without_filter df =
     Inr \<lparr>logged = lg',
          dept_avg_salary =
            mapValues (\<lambda>x. of_int (fst x) / of_int (snd x))
              (reduceByKey add_pair
                (mapValues (\<lambda>salary. (salary, 1)) (map (\<lambda>row. (department row, salary row)) df))),
          age_group_stats =
            mapValues (\<lambda>x. (of_int (fst x) / of_int (snd x), snd x))
              (reduceByKey add_pair
                (mapValues (\<lambda>salary. (salary, 1))
                  (map (\<lambda>row. (age_band (age row), salary row)) df)))\<rparr>"
    using apply_rdd_transformations_without_filter_results [of df] by blast
  show ?thesis
    unfolding a b by simp
qed

lemma logged_differs_by_count:
  "\<exists>r r'. apply_rdd_transformations df = Inr r
     \<and> apply_rdd_transformations_without_filter df = Inr r'
     \<and> logged r = hd (logged r')
         # HighSalaryCount (length (filter (\<lambda>row. salary row > 50000) df))
         # tl (logged r')"
  unfolding apply_rdd_transformations_def apply_rdd_transformations_without_filter_def Let_def
    dept_finalize_total age_finalize_total
  by (simp add: bind_err_def)

lemma run_stages_same:
  "map_sum (\<lambda>e. e) (\<lambda>(r, files). (dept_avg_salary r, age_group_stats r, files)) (run_stages fs df)
     = map_sum (\<lambda>e. e) (\<lambda>(r, files). (dept_avg_salary r, age_group_stats r, files))
         (run_stages_without_filter fs df)"
  using rdd_results_same [of df]
  by (cases "apply_rdd_transformations df"; cases "apply_rdd_transformations_without_filter df")
    (simp_all add: run_stages_def run_stages_without_filter_def bind_err_def case_prod_beta)

lemma rdd_results_over_all_rows:
  "\<exists>r. apply_rdd_transformations df = Inr r
     \<and> (\<forall>d. map_of (dept_avg_salary r) d =
           (if filter (\<lambda>row. department row = d) df = [] then None
            else Some (of_int (sum_list (map salary (filter (\<lambda>row. department row = d) df)))
                       / of_int (int (length (filter (\<lambda>row. department row = d) df))))))
     \<and> (\<forall>b. map_of (age_group_stats r) b =
           (if filter (\<lambda>row. age_band (age row) = b) df = [] then None
            else Some (of_int (sum_list (map salary (filter (\<lambda>row. age_band (age row) = b) df)))
                       / of_int (int (length (filter (\<lambda>row. age_band (age row) = b) df))),
                       int (length (filter (\<lambda>row. age_band (age row) = b) df)))))"
proof -
  obtain lg where a: "apply_rdd_transformations df =
     Inr \<lparr>logged = lg,
          dept_avg_salary =
            mapValues (\<lambda>x. of_int (fst x) / of_int (snd x))
              (reduceByKey add_pair
                (mapValues (\<lambda>salary. (salary, 1)) (map (\<lambda>row. (department row, salary row)) df))),
          age_group_stats =
            mapValues (\<lambda>x. (of_int (fst x) / of_int (snd x), snd x))
              (reduceByKey add_pair
                (mapValues (\<lambda>salary. (salary, 1))
                  (map (\<lambda>row. (age_band (age row), salary row)) df)))\<rparr>"
    using apply_rdd_transformations_results [of df] by blast
  show ?thesis
    unfolding a by (simp add: map_of_mapValues map_of_reduce_keyed)
qed

lemma run_stages_files:
  "\<exists>r. run_stages fs df =
     Inr (r, save_results fs (map add_features df)
               (fst (snd (apply_dataframe_transformations df)))
               (snd (snd (apply_dataframe_transformations df))))"
proof -
  obtain r where "apply_rdd_transformations df = Inr r"
    using apply_rdd_transformations_results [of df] by blast
  then show ?thesis
    by (simp add: run_stages_def bind_err_def case_prod_beta)
      (simp add: apply_dataframe_transformations_def Let_def)
qed


text \<open>
  C10. The high-salary filter (salary > 50000) affects nothing that is returned or
  written. The aggregates returned by the key-value path are the same with and without
  the filter step, and so are the returned aggregates together with the files after the
  three stages; the only difference is the one log line that reports the filter's count.
  The aggregates are sums and counts over all rows of the input with the key, whatever
  their salary, and the files written are the three tables of the tabular aggregator
  over all rows of the input.
\<close>

theorem filter_stage_has_no_effect:
  "map_sum (\<lambda>e. e) (\<lambda>r. (dept_avg_salary r, age_group_stats r)) (apply_rdd_transformations df)
     = map_sum (\<lambda>e. e) (\<lambda>r. (dept_avg_salary r, age_group_stats r))
         (apply_rdd_transformations_without_filter df)
   \<and> map_sum (\<lambda>e. e) (\<lambda>(r, files). (dept_avg_salary r, age_group_stats r, files))
       (run_stages fs df)
     = map_sum (\<lambda>e. e) (\<lambda>(r, files). (dept_avg_salary r, age_group_stats r, files))
         (run_stages_without_filter fs df)
   \<and> (\<exists>r r'. apply_rdd_transformations df = Inr r
         \<and> apply_rdd_transformations_without_filter df = Inr r'
         \<and> logged r = hd (logged r')
             # HighSalaryCount (length (filter (\<lambda>row. salary row > 50000) df))
             # tl (logged r'))
   \<and> (\<exists>r. apply_rdd_transformations df = Inr r
     \<and> (\<forall>d. map_of (dept_avg_salary r) d =
           (if filter (\<lambda>row. department row = d) df = [] then None
            else Some (of_int (sum_list (map salary (filter (\<lambda>row. department row = d) df)))
                       / of_int (int (length (filter (\<lambda>row. department row = d) df))))))
     \<and> (\<forall>b. map_of (age_group_stats r) b =
           (if filter (\<lambda>row. age_band (age row) = b) df = [] then None
            else Some (of_int (sum_list (map salary (filter (\<lambda>row. age_band (age row) = b) df)))
                       / of_int (int (length (filter (\<lambda>row. age_band (age row) = b) df))),
                       int (length (filter (\<lambda>row. age_band (age row) = b) df))))))
   \<and> (\<exists>r. run_stages fs df =
         Inr (r, save_results fs (map add_features df)
               (fst (snd (apply_dataframe_transformations df)))
               (snd (snd (apply_dataframe_transformations df)))))"
  by (rule conjI [OF rdd_results_same conjI [OF run_stages_same
        conjI [OF logged_differs_by_count conjI [OF rdd_results_over_all_rows run_stages_files]]]])

end
